theory Spec2Isabelle
  imports Main
begin

section \<open>The model-deploy notebook: values, exceptions and remote services\<close>

text \<open>
  The notebook \<^verbatim>\<open>sagemaker-model-deploy.ipynb\<close> is a sequence of Python cells that call
  the SageMaker, SSM, CodePipeline and CloudFormation clients of boto3. A Python value
  that the cells keep in a dictionary is a \<open>pyval\<close>; a dictionary is a map from its
  string keys. Strings are lists of characters, one \<open>char\<close> for each character that
  Python's \<open>len\<close> counts (the names the services accept are ASCII). \<open>Float n d\<close> is the
  float that Python reads from the decimal literal of the quotient of \<open>n\<close> by \<open>d\<close>; the
  notebook only passes it on.
\<close>

datatype pyval =
    Str string
  | Num int
  | Float int int
  | Bool bool
  | DateTime int
  | Lst "pyval list"
  | Dict "string \<Rightarrow> pyval option"

type_synonym dict = "string \<Rightarrow> pyval option"

text \<open>
  Every \<^verbatim>\<open>raise\<close> is a value. \<open>Exception msg\<close> is the generic \<^verbatim>\<open>Exception(msg)\<close> of
  the notebook itself; \<open>SdkError code\<close> is an exception raised inside a boto3 or SageMaker
  SDK call; the others are raised by the Python interpreter.
\<close>

datatype exn =
    KeyError string
  | IndexError
  | TypeError
  | AssertionError
  | Exception string
  | SdkError string

subsection \<open>Responses of the remote services\<close>

text \<open>
  A response whose fields the notebook only reads by a fixed key is a record of the fields
  it reads, and so is an entry of \<^verbatim>\<open>ssm_params\<close>. The response of \<^verbatim>\<open>describe_domain\<close> is
  kept as a dictionary, because \<^verbatim>\<open>get_environment\<close> deletes keys from it and merges it
  with other dictionaries.
\<close>

record user_context =
  DomainId :: string

record project =
  ProjectId :: string
  CreatedBy :: user_context

record tag =
  Key :: string
  Value :: string

record ssm_param =
  VariableName :: string
  ParameterName :: string

text \<open>
  The remote reads of \<^verbatim>\<open>get_environment\<close>: each either raises or returns. The field
  \<open>get_parameter\<close> stands for \<^verbatim>\<open>ssm.get_parameter(Name=n)["Parameter"]["Value"]\<close>, and
  \<open>list_tags\<close> for \<^verbatim>\<open>sm.list_tags(ResourceArn=a)["Tags"]\<close>.
\<close>

record aws =
  describe_project :: "string \<Rightarrow> exn + project"
  describe_domain :: "string \<Rightarrow> exn + dict"
  list_tags :: "pyval \<Rightarrow> exn + tag list"
  get_parameter :: "string \<Rightarrow> exn + string"

section \<open>\<^verbatim>\<open>get_environment\<close>\<close>

text \<open>\<^verbatim>\<open>del r[k]\<close> raises \<^verbatim>\<open>KeyError\<close> when the key is absent.\<close>

definition del :: "dict \<Rightarrow> string \<Rightarrow> exn + dict" where
  "del r k = (case r k of None \<Rightarrow> Inl (KeyError k) | Some _ \<Rightarrow> Inr (r(k := None)))"

text \<open>\<^verbatim>\<open>r[k]\<close> raises \<^verbatim>\<open>KeyError\<close> when the key is absent.\<close>

definition getitem :: "dict \<Rightarrow> string \<Rightarrow> exn + pyval" where
  "getitem r k = (case r k of None \<Rightarrow> Inl (KeyError k) | Some v \<Rightarrow> Inr v)"

text \<open>
  \<^verbatim>\<open>{**r, **v}\<close>: the keys of \<open>v\<close> override those of \<open>r\<close>; unpacking a value that is not a
  mapping raises \<^verbatim>\<open>TypeError\<close>.
\<close>

definition merge_into :: "dict \<Rightarrow> pyval \<Rightarrow> exn + dict" where
  "merge_into r v = (case v of Dict d \<Rightarrow> Inr (r ++ d) | _ \<Rightarrow> Inl TypeError)"

text \<open>
  The first statements of \<^verbatim>\<open>get_environment\<close> after the response \<open>r\<close> of
  \<^verbatim>\<open>describe_domain\<close> has arrived:
  \<^verbatim>\<open>
    del r["ResponseMetadata"]
    del r["CreationTime"]
    del r["LastModifiedTime"]
    r = {**r, **r["DefaultUserSettings"]}
    del r["DefaultUserSettings"]
  \<close>
\<close>

definition flatten_domain :: "dict \<Rightarrow> exn + dict" where
  "flatten_domain r =
     (case del r ''ResponseMetadata'' of Inl e \<Rightarrow> Inl e | Inr r1 \<Rightarrow>
      case del r1 ''CreationTime'' of Inl e \<Rightarrow> Inl e | Inr r2 \<Rightarrow>
      case del r2 ''LastModifiedTime'' of Inl e \<Rightarrow> Inl e | Inr r3 \<Rightarrow>
      case getitem r3 ''DefaultUserSettings'' of Inl e \<Rightarrow> Inl e | Inr dus \<Rightarrow>
      case merge_into r3 dus of Inl e \<Rightarrow> Inl e | Inr r4 \<Rightarrow>
      del r4 ''DefaultUserSettings'')"

text \<open>
  The dictionary comprehension over the tags,
  \<^verbatim>\<open>{t["Key"]:t["Value"] for t in tags if t["Key"] in ["EnvironmentName", "EnvironmentType"]}\<close>:
  a later tag with the same key overrides an earlier one.
\<close>

primrec environment_tags :: "dict \<Rightarrow> tag list \<Rightarrow> dict" where
  "environment_tags d [] = d"
| "environment_tags d (t # ts) =
     (if Key t \<in> set [''EnvironmentName'', ''EnvironmentType'']
      then environment_tags (d(Key t \<mapsto> Str (Value t))) ts
      else environment_tags d ts)"

text \<open>
  A replacement field \<^verbatim>\<open>{v}\<close> of an f-string is \<^verbatim>\<open>format(v, "")\<close>: the string itself for a
  string. What Python prints for the other values is the parameter \<open>repr\<close>.
\<close>

definition format :: "(pyval \<Rightarrow> string) \<Rightarrow> pyval \<Rightarrow> string" where
  "format repr v = (case v of Str s \<Rightarrow> s | _ \<Rightarrow> repr v)"

text \<open>
  The right-hand side of the assignment in the \<^verbatim>\<open>try\<close> block,
  \<^verbatim>\<open>ssm.get_parameter(Name=f"{i['EnvironmentName']}-{i['EnvironmentType']}-{p['ParameterName']}")["Parameter"]["Value"]\<close>,
  with the subscripts evaluated from left to right before the call.
\<close>

definition read_param :: "aws \<Rightarrow> (pyval \<Rightarrow> string) \<Rightarrow> dict \<Rightarrow> ssm_param \<Rightarrow> exn + pyval" where
  "read_param a repr i p =
     (case getitem i ''EnvironmentName'' of Inl e \<Rightarrow> Inl e | Inr en \<Rightarrow>
      case getitem i ''EnvironmentType'' of Inl e \<Rightarrow> Inl e | Inr et \<Rightarrow>
      case get_parameter a (format repr en @ ''-'' @ format repr et @ ''-'' @ ParameterName p) of
        Inl e \<Rightarrow> Inl e
      | Inr v \<Rightarrow> Inr (Str v))"

text \<open>
  One turn of the loop over \<^verbatim>\<open>ssm_params\<close>:
  \<^verbatim>\<open>
    try:
        i[p["VariableName"]] = ssm.get_parameter(...)["Parameter"]["Value"]
    except:
        i[p["VariableName"]] = ""
  \<close>
\<close>

definition store_param :: "aws \<Rightarrow> (pyval \<Rightarrow> string) \<Rightarrow> dict \<Rightarrow> ssm_param \<Rightarrow> dict" where
  "store_param a repr i p =
     (case read_param a repr i p of
        Inr v \<Rightarrow> i(VariableName p \<mapsto> v)
      | Inl _ \<Rightarrow> i(VariableName p \<mapsto> Str []))"

primrec load_params :: "aws \<Rightarrow> (pyval \<Rightarrow> string) \<Rightarrow> dict \<Rightarrow> ssm_param list \<Rightarrow> dict" where
  "load_params a repr i [] = i"
| "load_params a repr i (p # ps) = load_params a repr (store_param a repr i p) ps"

definition get_environment ::
  "aws \<Rightarrow> (pyval \<Rightarrow> string) \<Rightarrow> string \<Rightarrow> ssm_param list \<Rightarrow> exn + dict" where
  "get_environment a repr project_name ssm_params =
     (case describe_project a project_name of Inl e \<Rightarrow> Inl e | Inr pr \<Rightarrow>
      case describe_domain a (DomainId (CreatedBy pr)) of Inl e \<Rightarrow> Inl e | Inr r0 \<Rightarrow>
      case flatten_domain r0 of Inl e \<Rightarrow> Inl e | Inr r \<Rightarrow>
      case getitem r ''DomainArn'' of Inl e \<Rightarrow> Inl e | Inr arn \<Rightarrow>
      case list_tags a arn of Inl e \<Rightarrow> Inl e | Inr tags \<Rightarrow>
      Inr (load_params a repr (r ++ environment_tags Map.empty tags) ssm_params))"

text \<open>
  The list that the notebook passes to \<^verbatim>\<open>get_environment\<close>:
  \<^verbatim>\<open>
    ssm_parameters = [
        {"VariableName":"DataBucketName", "ParameterName":"data-bucket-name"},
        {"VariableName":"ModelBucketName", "ParameterName":"model-bucket-name"},
        ...
        {"VariableName":"EnvTypeProdName", "ParameterName":"env-type-prod-name"},
    ]
    env_data = get_environment(project_name=project_name, ssm_params=ssm_parameters)
  \<close>
\<close>

definition ssm_parameters :: "ssm_param list" where
  "ssm_parameters =
     [\<lparr>VariableName = ''DataBucketName'', ParameterName = ''data-bucket-name''\<rparr>,
      \<lparr>VariableName = ''ModelBucketName'', ParameterName = ''model-bucket-name''\<rparr>,
      \<lparr>VariableName = ''S3VPCEId'', ParameterName = ''s3-vpce-id''\<rparr>,
      \<lparr>VariableName = ''S3KmsKeyId'', ParameterName = ''kms-s3-key-arn''\<rparr>,
      \<lparr>VariableName = ''EbsKmsKeyArn'', ParameterName = ''kms-ebs-key-arn''\<rparr>,
      \<lparr>VariableName = ''PipelineExecutionRole'',
       ParameterName = ''sm-pipeline-execution-role-arn''\<rparr>,
      \<lparr>VariableName = ''ModelExecutionRole'', ParameterName = ''sm-model-execution-role-name''\<rparr>,
      \<lparr>VariableName = ''StackSetExecutionRole'',
       ParameterName = ''stackset-execution-role-name''\<rparr>,
      \<lparr>VariableName = ''StackSetAdministrationRole'',
       ParameterName = ''stackset-administration-role-arn''\<rparr>,
      \<lparr>VariableName = ''StagingAccountList'', ParameterName = ''staging-account-list''\<rparr>,
      \<lparr>VariableName = ''ProdAccountList'', ParameterName = ''production-account-list''\<rparr>,
      \<lparr>VariableName = ''EnvTypeStagingName'', ParameterName = ''env-type-staging-name''\<rparr>,
      \<lparr>VariableName = ''EnvTypeProdName'', ParameterName = ''env-type-prod-name''\<rparr>]"

section \<open>The names of the resources\<close>

text \<open>
  The f-strings that name the resources. \<open>model_package_group_name\<close> and \<open>prefix\<close> are
  \<^verbatim>\<open>f"{project_name}-{project_id}"\<close>, \<open>pipeline_name\<close> is \<^verbatim>\<open>f"{prefix}-IrisPipeline"\<close>,
  which reads the variable \<^verbatim>\<open>prefix\<close>, and \<open>code_pipeline_name\<close> is
  \<^verbatim>\<open>f"sagemaker-{project_name}-{project_id}-modeldeploy"\<close>. An f-string is the
  concatenation of its parts, a literal part as it stands and a replacement field
  formatted. The cells below evaluate them on the variables that earlier cells assigned.
\<close>

datatype fpart = Lit string | Field pyval

primrec fstring :: "(pyval \<Rightarrow> string) \<Rightarrow> fpart list \<Rightarrow> string" where
  "fstring repr [] = []"
| "fstring repr (x # xs) =
     (case x of Lit s \<Rightarrow> s | Field v \<Rightarrow> format repr v) @ fstring repr xs"

definition model_package_group_name :: "(pyval \<Rightarrow> string) \<Rightarrow> string \<Rightarrow> string \<Rightarrow> string" where
  "model_package_group_name repr project_name project_id =
     fstring repr [Field (Str project_name), Lit ''-'', Field (Str project_id)]"

definition prefix :: "(pyval \<Rightarrow> string) \<Rightarrow> string \<Rightarrow> string \<Rightarrow> string" where
  "prefix repr project_name project_id =
     fstring repr [Field (Str project_name), Lit ''-'', Field (Str project_id)]"



section \<open>The cell that loads the roles and names the resources\<close>

text \<open>
  The cell after \<^verbatim>\<open>get_environment\<close> creates the SageMaker session, reads the roles and
  buckets out of \<^verbatim>\<open>env_data\<close>, asks for the project id and names the model package group:
  \<^verbatim>\<open>
    sagemaker_session = get_session(boto3.Session().region_name, env_data["DataBucketName"])
    region = boto3.Session().region_name
    pipeline_role = env_data["PipelineExecutionRole"]
    processing_role = env_data["ExecutionRole"]
    model_execution_role = env_data["ModelExecutionRole"]
    training_role = env_data["ExecutionRole"]
    data_bucket = sagemaker_session.default_bucket()
    model_bucket = env_data["ModelBucketName"]
    ...
    project_id = sm.describe_project(ProjectName=project_name)['ProjectId']
    model_package_group_name = f"{project_name}-{project_id}"
    assert(len(project_name) <= 15 ) # the project name should not have more than 15 chars
    prefix=f"{project_name}-{project_id}"
  \<close>
  \<^verbatim>\<open>get_session\<close> only calls constructors of boto3 and of the SageMaker SDK, and
  \<^verbatim>\<open>default_bucket\<close> is a method of the SDK's session: each is a parameter that either
  raises or returns. The \<^verbatim>\<open>print\<close> statements leave no trace in the model.
\<close>

record session_sdk =
  region_name :: string
  get_session :: "string \<Rightarrow> pyval \<Rightarrow> exn + unit"
  default_bucket :: "exn + pyval"

record roles =
  region :: string
  pipeline_role :: pyval
  processing_role :: pyval
  model_execution_role :: pyval
  training_role :: pyval
  data_bucket :: pyval
  model_bucket :: pyval

record names =
  the_project_id :: string
  the_model_package_group_name :: string
  the_prefix :: string

definition load_roles :: "session_sdk \<Rightarrow> dict \<Rightarrow> exn + roles" where
  "load_roles sdk env_data =
     (case getitem env_data ''DataBucketName'' of Inl e \<Rightarrow> Inl e | Inr b \<Rightarrow>
      case get_session sdk (region_name sdk) b of Inl e \<Rightarrow> Inl e | Inr _ \<Rightarrow>
      case getitem env_data ''PipelineExecutionRole'' of Inl e \<Rightarrow> Inl e | Inr pipeline \<Rightarrow>
      case getitem env_data ''ExecutionRole'' of Inl e \<Rightarrow> Inl e | Inr processing \<Rightarrow>
      case getitem env_data ''ModelExecutionRole'' of Inl e \<Rightarrow> Inl e | Inr model_execution \<Rightarrow>
      case getitem env_data ''ExecutionRole'' of Inl e \<Rightarrow> Inl e | Inr training \<Rightarrow>
      case default_bucket sdk of Inl e \<Rightarrow> Inl e | Inr bucket \<Rightarrow>
      case getitem env_data ''ModelBucketName'' of Inl e \<Rightarrow> Inl e | Inr model \<Rightarrow>
      Inr \<lparr>region = region_name sdk, pipeline_role = pipeline, processing_role = processing,
           model_execution_role = model_execution, training_role = training,
           data_bucket = bucket, model_bucket = model\<rparr>)"

definition name_resources :: "aws \<Rightarrow> (pyval \<Rightarrow> string) \<Rightarrow> string \<Rightarrow> exn + names" where
  "name_resources a repr project_name =
     (case describe_project a project_name of Inl e \<Rightarrow> Inl e | Inr pr \<Rightarrow>
      let pid = ProjectId pr;
          package_group = model_package_group_name repr project_name pid
      in if length project_name \<le> 15
         then Inr \<lparr>the_project_id = pid, the_model_package_group_name = package_group,
                   the_prefix = prefix repr project_name pid\<rparr>
         else Inl AssertionError)"

definition environment_cell ::
  "session_sdk \<Rightarrow> aws \<Rightarrow> (pyval \<Rightarrow> string) \<Rightarrow> dict \<Rightarrow> string \<Rightarrow> exn + roles \<times> names" where
  "environment_cell sdk a repr env_data project_name =
     (case load_roles sdk env_data of Inl e \<Rightarrow> Inl e | Inr rs \<Rightarrow>
      case name_resources a repr project_name of Inl e \<Rightarrow> Inl e | Inr ns \<Rightarrow> Inr (rs, ns))"

section \<open>Calls that change or watch the remote services\<close>

text \<open>
  The cells that follow are sequences of calls into the SDK. Each call, and each
  \<^verbatim>\<open>time.sleep\<close>, is an event; a cell
  takes the events so far and returns them extended, with the exception it raised or its
  result. A remote service answers a call after having seen the events so far, so that two
  polls with the same arguments can get different answers.
\<close>

datatype event =
    ListModelPackages string string string
      \<comment> \<open>\<open>ModelPackageGroupName\<close>, \<open>SortBy\<close>, \<open>SortOrder\<close>\<close>
  | UpdateModelPackage string string
      \<comment> \<open>\<open>ModelPackageArn\<close>, \<open>ModelApprovalStatus\<close>\<close>
  | GetPipelineState string
  | ListStackInstances string
  | DeleteStackInstances string "string list" "string list" bool
      \<comment> \<open>\<open>StackSetName\<close>, \<open>Accounts\<close>, \<open>Regions\<close>, \<open>RetainStacks\<close>\<close>
  | DeleteStackSet string
  | Sleep nat
  | SdkCall string "(string \<times> pyval) list"
      \<comment> \<open>any other call into boto3 or the SageMaker SDK: the callee as the notebook writes
          it, and the arguments by keyword (the empty keyword for a positional argument)\<close>

record model_package_summary =
  ModelPackageArn :: string
  CreationTime :: int
  ModelApprovalStatus :: string

record page =
  ModelPackageSummaryList :: "model_package_summary list"

record action_execution =
  status :: string

record action_state =
  actionName :: string
  latestExecution :: "action_execution option"

record stage_state =
  stageName :: string
  actionStates :: "action_state list"

record stack_instance_summary =
  Account :: string

record stack_instances_reply =
  Summaries :: "stack_instance_summary list"
  NextToken :: "string option"

text \<open>
  \<open>list_model_packages\<close> is the whole pagination
  \<^verbatim>\<open>sm.get_paginator('list_model_packages').paginate(...)\<close>: the pages in the order they
  arrive, or the exception that one of the requests raised. \<open>get_pipeline_state\<close> is
  \<^verbatim>\<open>cp.get_pipeline_state(name=n)["stageStates"]\<close>. \<open>list_stack_instances\<close> is the reply to
  the one request \<^verbatim>\<open>cf.list_stack_instances(StackSetName=s)\<close>: the \<open>Summaries\<close> of the
  instances it lists and, when the service has more instances to list than the reply
  holds, the \<open>NextToken\<close> to ask for the next ones with. \<open>sdk_call\<close> answers every other
  call into boto3 or the SageMaker SDK.
\<close>

record remote =
  list_model_packages :: "event list \<Rightarrow> string \<Rightarrow> string \<Rightarrow> string \<Rightarrow> exn + page list"
  update_model_package :: "event list \<Rightarrow> string \<Rightarrow> string \<Rightarrow> exn + unit"
  get_pipeline_state :: "event list \<Rightarrow> string \<Rightarrow> exn + stage_state list"
  list_stack_instances :: "event list \<Rightarrow> string \<Rightarrow> exn + stack_instances_reply"
  delete_stack_instances ::
    "event list \<Rightarrow> string \<Rightarrow> string list \<Rightarrow> string list \<Rightarrow> bool \<Rightarrow> exn + unit"
  delete_stack_set :: "event list \<Rightarrow> string \<Rightarrow> exn + unit"
  sdk_call :: "event list \<Rightarrow> string \<Rightarrow> (string \<times> pyval) list \<Rightarrow> exn + pyval"

subsection \<open>Calls into the SDK, one after the other\<close>




subsection \<open>The clients and the session\<close>



subsection \<open>Building and running the training pipeline\<close>















subsection \<open>Approving the latest model package\<close>

text \<open>
  \<^verbatim>\<open>
    model_packages = []
    for p in sm.get_paginator('list_model_packages').paginate(
            ModelPackageGroupName=model_package_group_name,
            SortBy="CreationTime",
            SortOrder="Descending",
        ):
        model_packages.extend(p["ModelPackageSummaryList"])

    if len(model_packages) == 0:
        raise Exception(f"No model package is found for {model_package_group_name} model package group")

    latest_model_package_arn = model_packages[0]["ModelPackageArn"]
  \<close>
\<close>

primrec extend_all :: "model_package_summary list \<Rightarrow> page list \<Rightarrow> model_package_summary list" where
  "extend_all model_packages [] = model_packages"
| "extend_all model_packages (p # ps) =
     extend_all (model_packages @ ModelPackageSummaryList p) ps"

definition no_model_package :: "(pyval \<Rightarrow> string) \<Rightarrow> string \<Rightarrow> exn" where
  "no_model_package repr package_group =
     Exception (fstring repr [Lit ''No model package is found for '', Field (Str package_group),
                              Lit '' model package group''])"

definition select_latest_model_package ::
  "remote \<Rightarrow> (pyval \<Rightarrow> string) \<Rightarrow> string \<Rightarrow> event list \<Rightarrow> event list \<times> (exn + string)" where
  "select_latest_model_package rm repr package_group tr =
     (let tr' = tr @ [ListModelPackages package_group ''CreationTime'' ''Descending''] in
      case list_model_packages rm tr package_group ''CreationTime'' ''Descending'' of
        Inl e \<Rightarrow> (tr', Inl e)
      | Inr pages \<Rightarrow>
          let model_packages = extend_all [] pages in
          if length model_packages = 0 then (tr', Inl (no_model_package repr package_group))
          else (tr', Inr (ModelPackageArn (model_packages ! 0))))"

text \<open>
  \<^verbatim>\<open>
    model_package_update_response = sm.update_model_package(
        ModelPackageArn=latest_model_package_arn,
        ModelApprovalStatus="Approved",
    )
  \<close>
\<close>

definition approve_model_package ::
  "remote \<Rightarrow> string \<Rightarrow> event list \<Rightarrow> event list \<times> (exn + unit)" where
  "approve_model_package rm latest_model_package_arn tr =
     (tr @ [UpdateModelPackage latest_model_package_arn ''Approved''],
      update_model_package rm tr latest_model_package_arn ''Approved'')"

text \<open>
  The two cells one after the other; the second runs only if the first has not raised,
  as it defines the variable the second reads.
\<close>

definition approval_step ::
  "remote \<Rightarrow> (pyval \<Rightarrow> string) \<Rightarrow> string \<Rightarrow> event list \<Rightarrow> event list \<times> (exn + unit)" where
  "approval_step rm repr package_group tr =
     (case select_latest_model_package rm repr package_group tr of
        (tr', Inl e) \<Rightarrow> (tr', Inl e)
      | (tr', Inr arn) \<Rightarrow> approve_model_package rm arn tr')"

subsection \<open>Looking at the deployment pipeline\<close>


subsection \<open>Waiting for the deployments\<close>

text \<open>
  The condition of both \<^verbatim>\<open>while\<close> loops, for the stage, the action and the status each
  names:
  \<^verbatim>\<open>
    len([a for a in [s for s in stageStates if s["stageName"] == stage][0]["actionStates"]
         if a["actionName"]==action and a.get("latestExecution")
            and a.get("latestExecution")["status"]==status])==0
  \<close>
  Subscripting the empty list of stages raises \<^verbatim>\<open>IndexError\<close>.
\<close>

definition reached :: "string \<Rightarrow> string \<Rightarrow> action_state \<Rightarrow> bool" where
  "reached action st a =
     (actionName a = action \<and>
      (case latestExecution a of None \<Rightarrow> False | Some x \<Rightarrow> status x = st))"

definition still_waiting :: "string \<Rightarrow> string \<Rightarrow> string \<Rightarrow> stage_state list \<Rightarrow> exn + bool" where
  "still_waiting stage action st stageStates =
     (case filter (\<lambda>s. stageName s = stage) stageStates of
        [] \<Rightarrow> Inl IndexError
      | s # _ \<Rightarrow> Inr (length (filter (reached action st) (actionStates s)) = 0))"

text \<open>
  The loop itself,
  \<^verbatim>\<open>
    while <condition on cp.get_pipeline_state(name=code_pipeline_name)["stageStates"]>:
        print("waiting...")
        time.sleep(20)
  \<close>
  may run for ever: it is a partial function, and \<open>None\<close> is the loop that never ends.
\<close>

partial_function (option) wait_until ::
  "remote \<Rightarrow> string \<Rightarrow> string \<Rightarrow> string \<Rightarrow> string \<Rightarrow> event list
     \<Rightarrow> (event list \<times> exn option) option" where
  "wait_until rm name stage action st tr =
     (case get_pipeline_state rm tr name of
        Inl e \<Rightarrow> Some (tr @ [GetPipelineState name], Some e)
      | Inr stageStates \<Rightarrow>
          (case still_waiting stage action st stageStates of
             Inl e \<Rightarrow> Some (tr @ [GetPipelineState name], Some e)
           | Inr w \<Rightarrow>
               if w then wait_until rm name stage action st
                           (tr @ [GetPipelineState name, Sleep 20])
               else Some (tr @ [GetPipelineState name], None)))"

definition wait_for_staging ::
  "remote \<Rightarrow> string \<Rightarrow> event list \<Rightarrow> (event list \<times> exn option) option" where
  "wait_for_staging rm code_pipeline tr =
     wait_until rm code_pipeline ''DeployModelStaging'' ''ApproveStagingDeployment''
       ''InProgress'' tr"

definition wait_for_production ::
  "remote \<Rightarrow> string \<Rightarrow> event list \<Rightarrow> (event list \<times> exn option) option" where
  "wait_for_production rm code_pipeline tr =
     wait_until rm code_pipeline ''DeployModelProd'' ''DeployProd'' ''Succeeded'' tr"

subsection \<open>Clean-up\<close>

text \<open>
  \<^verbatim>\<open>
    cf = boto3.client("cloudformation")

    for ss in [
            f"sagemaker-{project_name}-{project_id}-deploy-{env_data['EnvTypeStagingName']}",
            f"sagemaker-{project_name}-{project_id}-deploy-{env_data['EnvTypeProdName']}"
            ]:
        accounts = [a["Account"] for a in cf.list_stack_instances(StackSetName=ss)["Summaries"]]
        r = cf.delete_stack_instances(
            StackSetName=ss,
            Accounts=accounts,
            Regions=[boto3.session.Session().region_name],
            RetainStacks=False,
        )
        time.sleep(180)
        r = cf.delete_stack_set(
            StackSetName=ss
        )
  \<close>
  The loop makes one request for the instances of a stack set and reads the \<open>Summaries\<close>
  of the reply; it does not read \<open>NextToken\<close>. The region of the default session,
  \<^verbatim>\<open>boto3.session.Session().region_name\<close>, is the parameter \<open>rgn\<close>.
\<close>

primrec delete_stack_sets ::
  "remote \<Rightarrow> string \<Rightarrow> string list \<Rightarrow> event list \<Rightarrow> event list \<times> exn option" where
  "delete_stack_sets rm rgn [] tr = (tr, None)"
| "delete_stack_sets rm rgn (ss # rest) tr =
     (case list_stack_instances rm tr ss of
        Inl e \<Rightarrow> (tr @ [ListStackInstances ss], Some e)
      | Inr reply \<Rightarrow>
          let accounts = map Account (Summaries reply);
              tr1 = tr @ [ListStackInstances ss];
              tr2 = tr1 @ [DeleteStackInstances ss accounts [rgn] False]
          in case delete_stack_instances rm tr1 ss accounts [rgn] False of
               Inl e \<Rightarrow> (tr2, Some e)
             | Inr _ \<Rightarrow>
                 let tr3 = tr2 @ [Sleep 180] in
                 (case delete_stack_set rm tr3 ss of
                    Inl e \<Rightarrow> (tr3 @ [DeleteStackSet ss], Some e)
                  | Inr _ \<Rightarrow> delete_stack_sets rm rgn rest (tr3 @ [DeleteStackSet ss])))"

definition stack_set_name ::
  "(pyval \<Rightarrow> string) \<Rightarrow> string \<Rightarrow> string \<Rightarrow> pyval \<Rightarrow> string" where
  "stack_set_name repr project_name pid env_type =
     fstring repr [Lit ''sagemaker-'', Field (Str project_name), Lit ''-'', Field (Str pid),
                   Lit ''-deploy-'', Field env_type]"

definition clean_up ::
  "remote \<Rightarrow> (pyval \<Rightarrow> string) \<Rightarrow> string \<Rightarrow> dict \<Rightarrow> string \<Rightarrow> string \<Rightarrow> event list
     \<Rightarrow> event list \<times> exn option" where
  "clean_up rm repr rgn env_data project_name pid tr =
     (let tr0 = tr @ [SdkCall ''boto3.client'' [([], Str ''cloudformation'')]] in
      case sdk_call rm tr ''boto3.client'' [([], Str ''cloudformation'')] of
        Inl e \<Rightarrow> (tr0, Some e)
      | Inr cf \<Rightarrow>
      case getitem env_data ''EnvTypeStagingName'' of Inl e \<Rightarrow> (tr0, Some e) | Inr staging \<Rightarrow>
      case getitem env_data ''EnvTypeProdName'' of Inl e \<Rightarrow> (tr0, Some e) | Inr production \<Rightarrow>
      delete_stack_sets rm rgn
        [stack_set_name repr project_name pid staging, stack_set_name repr project_name pid production]
        tr0)"

section \<open>Notions the properties are stated with\<close>

text \<open>The tags that \<^verbatim>\<open>get_environment\<close> looks at.\<close>

definition only_environment_tags :: "tag list \<Rightarrow> tag list" where
  "only_environment_tags ts =
     filter (\<lambda>t. Key t \<in> set [''EnvironmentName'', ''EnvironmentType'']) ts"

text \<open>
  The events of \<open>n\<close> polls that each found the loop still waiting: a request for the
  pipeline state, then twenty seconds of sleep.
\<close>

definition polls :: "string \<Rightarrow> nat \<Rightarrow> event list" where
  "polls name n = concat (replicate n [GetPipelineState name, Sleep 20])"

text \<open>
  The status field that a loop waits for: in the first stage of the given name, an action
  of the given name whose latest execution has the given status.
\<close>

definition action_status_is :: "string \<Rightarrow> string \<Rightarrow> string \<Rightarrow> stage_state list \<Rightarrow> bool" where
  "action_status_is stage action st stageStates =
     (case find (\<lambda>s. stageName s = stage) stageStates of
        None \<Rightarrow> False
      | Some s \<Rightarrow>
          list_ex (\<lambda>a. actionName a = action \<and> map_option status (latestExecution a) = Some st)
            (actionStates s))"

definition stage_present :: "string \<Rightarrow> stage_state list \<Rightarrow> bool" where
  "stage_present stage stageStates = list_ex (\<lambda>s. stageName s = stage) stageStates"

text \<open>
  A poll made after the events \<open>tr\<close> keeps the loop waiting when the service answers with a
  state that has the stage and in which the status is not the awaited one; it ends the
  loop when the service answers with a state in which it is.
\<close>

definition poll_waits ::
  "remote \<Rightarrow> string \<Rightarrow> string \<Rightarrow> string \<Rightarrow> string \<Rightarrow> event list \<Rightarrow> bool" where
  "poll_waits rm name stage action st tr =
     (case get_pipeline_state rm tr name of
        Inl e \<Rightarrow> False
      | Inr ss \<Rightarrow> stage_present stage ss \<and> \<not> action_status_is stage action st ss)"

definition poll_succeeds ::
  "remote \<Rightarrow> string \<Rightarrow> string \<Rightarrow> string \<Rightarrow> string \<Rightarrow> event list \<Rightarrow> bool" where
  "poll_succeeds rm name stage action st tr =
     (case get_pipeline_state rm tr name of
        Inl e \<Rightarrow> False
      | Inr ss \<Rightarrow> action_status_is stage action st ss)"

text \<open>
  The stack sets whose instances an event deletes, and the stack sets an event deletes.
\<close>

fun emptied :: "event \<Rightarrow> string list" where
  "emptied (DeleteStackInstances ss accounts regions retain) = [ss]"
| "emptied _ = []"

fun deleted :: "event \<Rightarrow> string list" where
  "deleted (DeleteStackSet ss) = [ss]"
| "deleted _ = []"

text \<open>
  In the events \<open>new\<close> that follow the events \<open>tr\<close>, every deletion of a stack set comes
  right after the request for its instances, the deletion of the instances of every account
  in the \<open>Summaries\<close> of the reply, with \<open>RetainStacks=False\<close>, and the sleep.
\<close>

definition emptied_first :: "remote \<Rightarrow> string \<Rightarrow> event list \<Rightarrow> event list \<Rightarrow> bool" where
  "emptied_first rm rgn tr new =
     (\<forall>pre ss post. new = pre @ DeleteStackSet ss # post \<longrightarrow>
        (\<exists>pre' reply.
           pre = pre' @ [ListStackInstances ss,
                         DeleteStackInstances ss (map Account (Summaries reply)) [rgn] False,
                         Sleep 180]
           \<and> list_stack_instances rm (tr @ pre') ss = Inr reply))"







section \<open>A small account to run the notebook against\<close>

definition example_repr :: "pyval \<Rightarrow> string" where
  "example_repr v = ''<object>''"

definition example_project :: project where
  "example_project = \<lparr>ProjectId = ''p-1'', CreatedBy = \<lparr>DomainId = ''d-1''\<rparr>\<rparr>"

definition example_domain :: dict where
  "example_domain =
     [''ResponseMetadata'' \<mapsto> Dict Map.empty,
      ''CreationTime'' \<mapsto> DateTime 0,
      ''LastModifiedTime'' \<mapsto> DateTime 1,
      ''DomainArn'' \<mapsto> Str ''arn:d-1'',
      ''DefaultUserSettings'' \<mapsto> Dict [''ExecutionRole'' \<mapsto> Str ''role'']]"

definition example_tags :: "tag list" where
  "example_tags =
     [\<lparr>Key = ''EnvironmentName'', Value = ''sm''\<rparr>,
      \<lparr>Key = ''Owner'', Value = ''me''\<rparr>,
      \<lparr>Key = ''EnvironmentType'', Value = ''dev''\<rparr>]"

text \<open>A parameter store: a parameter that is not in the list raises.\<close>

definition example_store :: "(string \<times> string) list \<Rightarrow> string \<Rightarrow> exn + string" where
  "example_store kv n =
     (case map_of kv n of None \<Rightarrow> Inl (SdkError ''ParameterNotFound'') | Some v \<Rightarrow> Inr v)"

text \<open>The parameters of the environment \<open>sm-dev\<close> that the example store holds.\<close>

definition example_parameters :: "(string \<times> string) list" where
  "example_parameters =
     [(''sm-dev-data-bucket-name'', ''dev-data''),
      (''sm-dev-model-bucket-name'', ''dev-models''),
      (''sm-dev-env-type-staging-name'', ''staging''),
      (''sm-dev-env-type-prod-name'', ''prod'')]"

definition example_aws ::
  "exn + project \<Rightarrow> exn + dict \<Rightarrow> exn + tag list \<Rightarrow> (string \<times> string) list \<Rightarrow> aws" where
  "example_aws pr d ts kv =
     \<lparr>describe_project = (\<lambda>_. pr), describe_domain = (\<lambda>_. d), list_tags = (\<lambda>_. ts),
      get_parameter = example_store kv\<rparr>"

definition example_sdk :: session_sdk where
  "example_sdk =
     \<lparr>region_name = ''eu-west-1'', get_session = (\<lambda>_ _. Inr ()),
      default_bucket = Inr (Str ''data'')\<rparr>"

definition example_env :: dict where
  "example_env =
     [''DataBucketName'' \<mapsto> Str ''data'',
      ''ModelBucketName'' \<mapsto> Str ''models'',
      ''PipelineExecutionRole'' \<mapsto> Str ''pipeline-role'',
      ''ExecutionRole'' \<mapsto> Str ''role'',
      ''ModelExecutionRole'' \<mapsto> Str ''model-role'',
      ''EnvTypeStagingName'' \<mapsto> Str ''staging'',
      ''EnvTypeProdName'' \<mapsto> Str ''prod'']"

definition example_roles :: roles where
  "example_roles =
     \<lparr>region = ''eu-west-1'', pipeline_role = Str ''pipeline-role'',
      processing_role = Str ''role'', model_execution_role = Str ''model-role'',
      training_role = Str ''role'', data_bucket = Str ''data'', model_bucket = Str ''models''\<rparr>"






definition example_package :: "string \<Rightarrow> int \<Rightarrow> model_package_summary" where
  "example_package arn t =
     \<lparr>ModelPackageArn = arn, CreationTime = t, ModelApprovalStatus = ''PendingManualApproval''\<rparr>"

text \<open>
  The pipeline state at the poll that follows \<open>k\<close> earlier polls: the action has not run
  during the first two polls and has the status \<open>st\<close> from the third on.
\<close>

definition example_state :: "string \<Rightarrow> string \<Rightarrow> string \<Rightarrow> nat \<Rightarrow> stage_state list" where
  "example_state stage action st k =
     [\<lparr>stageName = ''Source'', actionStates = []\<rparr>,
      \<lparr>stageName = stage,
       actionStates =
         [\<lparr>actionName = action,
           latestExecution = (if k < 2 then None else Some \<lparr>status = st\<rparr>)\<rparr>]\<rparr>]"

text \<open>What a call into the SDK returns in the examples.\<close>

definition example_object :: pyval where
  "example_object = Dict [''PipelineArn'' \<mapsto> Str ''arn:pipeline/iris-p-1-IrisPipeline'']"

text \<open>
  Remote services in which every call returns: the model package listing comes in the given
  pages, every stack set has instances in two accounts, which one reply lists.
\<close>

definition example_remote :: "page list \<Rightarrow> (nat \<Rightarrow> stage_state list) \<Rightarrow> remote" where
  "example_remote pages state =
     \<lparr>list_model_packages = (\<lambda>tr g sort_by sort_order. Inr pages),
      update_model_package = (\<lambda>tr arn st. Inr ()),
      get_pipeline_state = (\<lambda>tr name. Inr (state (length tr div 2))),
      list_stack_instances =
        (\<lambda>tr ss. Inr \<lparr>Summaries = [\<lparr>Account = ''111111111111''\<rparr>,
                                    \<lparr>Account = ''222222222222''\<rparr>],
                       NextToken = None\<rparr>),
      delete_stack_instances = (\<lambda>tr ss accounts regions retain. Inr ()),
      delete_stack_set = (\<lambda>tr ss. Inr ()),
      sdk_call = (\<lambda>tr name args. Inr example_object)\<rparr>"


text \<open>
  A stack set with instances in three accounts, and remote services that list the
  instances of a stack set two to a reply: the reply to a request without a token holds the
  first two and the token to ask for the third with.
\<close>

definition example_instances :: "stack_instance_summary list" where
  "example_instances =
     [\<lparr>Account = ''111111111111''\<rparr>, \<lparr>Account = ''222222222222''\<rparr>,
      \<lparr>Account = ''333333333333''\<rparr>]"

definition example_truncating_remote :: remote where
  "example_truncating_remote =
     (example_remote [] (\<lambda>k. []))
       \<lparr>list_stack_instances :=
          (\<lambda>tr ss. Inr \<lparr>Summaries = take 2 example_instances, NextToken = Some ''2''\<rparr>)\<rparr>"

section \<open>Properties of \<^verbatim>\<open>get_environment\<close>\<close>

lemma dom_store_param: "dom (store_param a repr i p) = insert (VariableName p) (dom i)"
  by (simp add: store_param_def split: sum.splits)

lemma dom_load_params: "dom (load_params a repr i ps) = dom i \<union> VariableName ` set ps"
  by (induction ps arbitrary: i) (auto simp: dom_store_param)





lemma environment_tags_filter:
  "environment_tags d (filter (\<lambda>t. Key t \<in> set [''EnvironmentName'', ''EnvironmentType'']) ts)
     = environment_tags d ts"
  by (induction ts arbitrary: d) auto

lemma dom_environment_tags:
  "dom (environment_tags d ts) =
     dom d \<union> (Key ` set ts \<inter> {''EnvironmentName'', ''EnvironmentType''})"
  by (induction ts arbitrary: d) auto


lemma del_Inr: "del r k = Inr r' \<Longrightarrow> r' = r(k := None) \<and> k \<in> dom r"
  by (auto simp: del_def split: option.splits)

lemma dom_flatten_domain:
  assumes "flatten_domain r0 = Inr r" and "r0 ''DefaultUserSettings'' = Some (Dict dus)"
  shows "dom r = ((dom r0 - {''ResponseMetadata'', ''CreationTime'', ''LastModifiedTime''}) \<union> dom dus)
             - {''DefaultUserSettings''}"
proof -
  from assms(1) obtain r1 r2 r3 v r4 where
    1: "del r0 ''ResponseMetadata'' = Inr r1" and
    2: "del r1 ''CreationTime'' = Inr r2" and
    3: "del r2 ''LastModifiedTime'' = Inr r3" and
    4: "getitem r3 ''DefaultUserSettings'' = Inr v" and
    5: "merge_into r3 v = Inr r4" and
    6: "del r4 ''DefaultUserSettings'' = Inr r"
    unfolding flatten_domain_def by (simp split: sum.splits)
  have r3: "r3 = r0(''ResponseMetadata'' := None, ''CreationTime'' := None, ''LastModifiedTime'' := None)"
    using del_Inr [OF 1] del_Inr [OF 2] del_Inr [OF 3] by simp
  have "r3 ''DefaultUserSettings'' = Some (Dict dus)"
    using assms(2) by (simp add: r3)
  then have v: "v = Dict dus" using 4 by (simp add: getitem_def)
  have r4: "r4 = r3 ++ dus" using 5 by (simp add: merge_into_def v)
  have r: "r = r4(''DefaultUserSettings'' := None)" using del_Inr [OF 6] by simp
  show ?thesis unfolding r r4 r3 by auto
qed


lemma read_param_cong:
  "get_parameter a' = get_parameter a \<Longrightarrow> read_param a' repr i p = read_param a repr i p"
  by (simp add: read_param_def cong: sum.case_cong)

lemma load_params_cong:
  "get_parameter a' = get_parameter a \<Longrightarrow> load_params a' repr i ps = load_params a repr i ps"
  by (induction ps arbitrary: i) (simp_all add: store_param_def read_param_cong [of a' a])

lemmas example_defs = example_aws_def example_store_def example_tags_def example_domain_def
  example_project_def example_repr_def

lemmas get_environment_defs = get_environment_def flatten_domain_def del_def
  getitem_def merge_into_def store_param_def read_param_def format_def

subsection \<open>The parameters in the result\<close>




subsection \<open>The keys of the result\<close>

text \<open>
  Claim C8, as amended. The dictionary returned by \<^verbatim>\<open>get_environment\<close> has the key
  \<open>ResponseMetadata\<close>, \<open>CreationTime\<close> or \<open>LastModifiedTime\<close> exactly when that key is a key
  of \<open>DefaultUserSettings\<close> or a \<^verbatim>\<open>VariableName\<close> of \<^verbatim>\<open>ssm_params\<close>, and the key
  \<open>DefaultUserSettings\<close> exactly when it is a \<^verbatim>\<open>VariableName\<close> of \<^verbatim>\<open>ssm_params\<close>; every key
  of \<open>DefaultUserSettings\<close> other than \<open>DefaultUserSettings\<close> is a key of the result; and
  the result is the same when the domain has no tags but those with the key
  \<open>EnvironmentName\<close> or \<open>EnvironmentType\<close>.
\<close>

theorem get_environment_keys:
  assumes "describe_project a pn = Inr pr"
    and "describe_domain a (DomainId (CreatedBy pr)) = Inr r0"
    and "r0 ''DefaultUserSettings'' = Some (Dict dus)"
    and "get_environment a repr pn ps = Inr i"
  shows "(\<forall>k \<in> {''ResponseMetadata'', ''CreationTime'', ''LastModifiedTime''}.
            k \<in> dom i \<longleftrightarrow> k \<in> dom dus \<or> k \<in> VariableName ` set ps)
       \<and> (''DefaultUserSettings'' \<in> dom i \<longleftrightarrow> ''DefaultUserSettings'' \<in> VariableName ` set ps)
       \<and> (\<forall>k \<in> dom dus. k \<noteq> ''DefaultUserSettings'' \<longrightarrow> k \<in> dom i)
       \<and> get_environment
            (a\<lparr>list_tags := \<lambda>arn. map_sum id only_environment_tags (list_tags a arn)\<rparr>)
            repr pn ps = Inr i"
proof -
  from assms(1,2,4) obtain r arn tags where
    r: "flatten_domain r0 = Inr r" and arn: "r ''DomainArn'' = Some arn" and
    tags: "list_tags a arn = Inr tags" and
    i: "i = load_params a repr (r ++ environment_tags Map.empty tags) ps"
    by (auto simp: get_environment_def getitem_def split: sum.splits option.splits)
  have dr: "dom r = ((dom r0 - {''ResponseMetadata'', ''CreationTime'', ''LastModifiedTime''})
              \<union> dom dus) - {''DefaultUserSettings''}"
    using r assms(3) by (rule dom_flatten_domain)
  have di: "dom i = dom r \<union> (Key ` set tags \<inter> {''EnvironmentName'', ''EnvironmentType''})
              \<union> VariableName ` set ps"
    by (simp add: i dom_load_params dom_environment_tags Un_commute)
  have 1: "\<forall>k \<in> {''ResponseMetadata'', ''CreationTime'', ''LastModifiedTime''}.
            k \<in> dom i \<longleftrightarrow> k \<in> dom dus \<or> k \<in> VariableName ` set ps"
    unfolding di dr by auto
  have 2: "''DefaultUserSettings'' \<in> dom i \<longleftrightarrow> ''DefaultUserSettings'' \<in> VariableName ` set ps"
    unfolding di dr by auto
  have 3: "\<forall>k \<in> dom dus. k \<noteq> ''DefaultUserSettings'' \<longrightarrow> k \<in> dom i"
    unfolding di dr by auto
  let ?a = "a\<lparr>list_tags := \<lambda>arn. map_sum id only_environment_tags (list_tags a arn)\<rparr>"
  have "load_params ?a repr (r ++ environment_tags Map.empty (only_environment_tags tags)) ps = i"
    unfolding i only_environment_tags_def environment_tags_filter
    by (rule load_params_cong) simp
  then have 4: "get_environment ?a repr pn ps = Inr i"
    using assms(1,2) r arn tags by (simp add: get_environment_def getitem_def)
  from 1 2 3 4 show ?thesis by blast
qed

theorem get_environment_keys_witness:
  "''ResponseMetadata'' \<notin> dom (projr (get_environment
       (example_aws (Inr example_project) (Inr example_domain) (Inr example_tags)
          example_parameters)
       example_repr ''iris'' ssm_parameters))
   \<and> ''CreationTime'' \<notin> dom (projr (get_environment
       (example_aws (Inr example_project) (Inr example_domain) (Inr example_tags)
          example_parameters)
       example_repr ''iris'' ssm_parameters))
   \<and> ''LastModifiedTime'' \<notin> dom (projr (get_environment
       (example_aws (Inr example_project) (Inr example_domain) (Inr example_tags)
          example_parameters)
       example_repr ''iris'' ssm_parameters))
   \<and> ''DefaultUserSettings'' \<notin> dom (projr (get_environment
       (example_aws (Inr example_project) (Inr example_domain) (Inr example_tags)
          example_parameters)
       example_repr ''iris'' ssm_parameters))
   \<and> ''ExecutionRole'' \<in> dom (projr (get_environment
       (example_aws (Inr example_project) (Inr example_domain) (Inr example_tags)
          example_parameters)
       example_repr ''iris'' ssm_parameters))
   \<and> get_environment
       (example_aws (Inr example_project) (Inr example_domain) (Inr example_tags)
          example_parameters
          \<lparr>list_tags := \<lambda>arn. map_sum id only_environment_tags
             (list_tags (example_aws (Inr example_project) (Inr example_domain)
                (Inr example_tags) example_parameters) arn)\<rparr>)
       example_repr ''iris'' ssm_parameters
     = get_environment
       (example_aws (Inr example_project) (Inr example_domain) (Inr example_tags)
          example_parameters)
       example_repr ''iris'' ssm_parameters"
proof -
  let ?a = "example_aws (Inr example_project) (Inr example_domain) (Inr example_tags)
          example_parameters"
  let ?dus = "[''ExecutionRole'' \<mapsto> Str ''role'']"
  let ?i = "projr (get_environment ?a example_repr ''iris'' ssm_parameters)"
  have pr: "describe_project ?a ''iris'' = Inr example_project"
    and d: "describe_domain ?a (DomainId (CreatedBy example_project)) = Inr example_domain"
    by (simp_all add: example_aws_def)
  have dus: "example_domain ''DefaultUserSettings'' = Some (Dict ?dus)"
    by (simp add: example_domain_def)
  have i: "get_environment ?a example_repr ''iris'' ssm_parameters = Inr ?i"
    by (simp add: get_environment_def flatten_domain_def del_def getitem_def merge_into_def
        example_aws_def example_domain_def)
  note k = get_environment_keys [OF pr d dus i]
  have 1: "''ResponseMetadata'' \<notin> dom ?i"
    using k by (simp add: dom_def ssm_parameters_def)
  have 2: "''CreationTime'' \<notin> dom ?i"
    using k by (simp add: dom_def ssm_parameters_def)
  have 3: "''LastModifiedTime'' \<notin> dom ?i"
    using k by (simp add: dom_def ssm_parameters_def)
  have 4: "''DefaultUserSettings'' \<notin> dom ?i"
    using k by (simp add: ssm_parameters_def)
  have 5: "''ExecutionRole'' \<in> dom ?i"
    using k by (simp add: dom_def)
  have 6: "get_environment (?a\<lparr>list_tags := \<lambda>arn. map_sum id only_environment_tags (list_tags ?a arn)\<rparr>)
             example_repr ''iris'' ssm_parameters = Inr ?i"
    using k by simp
  from 1 2 3 4 5 6 i show ?thesis by simp
qed

text \<open>
  The claim as it was stated fails for an entry of \<^verbatim>\<open>ssm_params\<close> whose \<^verbatim>\<open>VariableName\<close>
  is one of the deleted keys: the loop stores the parameter under \<open>CreationTime\<close>, and the
  result has that key.
\<close>

theorem variable_name_restores_deleted_key:
  "\<not> isl (get_environment
       (example_aws (Inr example_project) (Inr example_domain) (Inr example_tags)
          [(''sm-dev-created'', ''yesterday'')])
       example_repr ''iris'' [\<lparr>VariableName = ''CreationTime'', ParameterName = ''created''\<rparr>])
   \<and> projr (get_environment
       (example_aws (Inr example_project) (Inr example_domain) (Inr example_tags)
          [(''sm-dev-created'', ''yesterday'')])
       example_repr ''iris'' [\<lparr>VariableName = ''CreationTime'', ParameterName = ''created''\<rparr>])
       ''CreationTime'' = Some (Str ''yesterday'')"
  by (simp add: example_defs get_environment_defs)

section \<open>The templates of the resource names\<close>



lemma nth_first_new: "(tr @ c # new) ! length tr = c"
  by simp





section \<open>The check on the project name\<close>

lemma load_roles_example: "load_roles example_sdk example_env = Inr example_roles"
  by (simp add: load_roles_def example_sdk_def example_env_def example_roles_def getitem_def)

text \<open>
  Claim C4, as amended. The name strings are not transformed, and one of them is checked:
  the cell that names the resources asserts that the project name has at most 15
  characters. Once the roles are loaded and the project is described, the cell raises
  \<^verbatim>\<open>AssertionError\<close> for every project name longer than 15 characters, and for every
  project name of at most 15 characters it returns the project id as the service gave it
  and the model package group name and the prefix built from the unchanged project name.
\<close>

theorem project_name_length_checked:
  assumes "load_roles sdk env_data = Inr rs" and "describe_project a pn = Inr pr"
  shows "(15 < length pn \<longrightarrow> environment_cell sdk a repr env_data pn = Inl AssertionError)
       \<and> (length pn \<le> 15 \<longrightarrow>
            environment_cell sdk a repr env_data pn
              = Inr (rs, \<lparr>the_project_id = ProjectId pr,
                          the_model_package_group_name = pn @ ''-'' @ ProjectId pr,
                          the_prefix = pn @ ''-'' @ ProjectId pr\<rparr>))"
  using assms
  by (simp add: environment_cell_def name_resources_def Let_def model_package_group_name_def
      prefix_def format_def)

theorem project_name_length_checked_witness:
  "environment_cell example_sdk
     (example_aws (Inr example_project) (Inr example_domain) (Inr example_tags) [])
     example_repr example_env ''iris''
   = Inr (example_roles,
          \<lparr>the_project_id = ''p-1'', the_model_package_group_name = ''iris-p-1'',
           the_prefix = ''iris-p-1''\<rparr>)
   \<and> environment_cell example_sdk
     (example_aws (Inr example_project) (Inr example_domain) (Inr example_tags) [])
     example_repr example_env ''iris-model-deploy''
   = Inl AssertionError"
proof -
  let ?a = "example_aws (Inr example_project) (Inr example_domain) (Inr example_tags) []"
  have 1: "describe_project ?a ''iris'' = Inr example_project"
    and 2: "describe_project ?a ''iris-model-deploy'' = Inr example_project"
    by (simp_all add: example_aws_def)
  show ?thesis
    using project_name_length_checked [OF load_roles_example 1, of example_repr]
      project_name_length_checked [OF load_roles_example 2, of example_repr]
    by (simp add: example_project_def)
qed

text \<open>
  The claim as it was stated fails for the project name \<open>iris-model-deploy\<close> of 17
  characters: the cell raises \<^verbatim>\<open>AssertionError\<close>, where with the project name \<open>iris\<close> and
  everything else the same it does not raise.
\<close>

theorem long_project_name_fails:
  "length ''iris-model-deploy'' = 17
   \<and> environment_cell example_sdk
     (example_aws (Inr example_project) (Inr example_domain) (Inr example_tags) [])
     example_repr example_env ''iris-model-deploy''
   = Inl AssertionError
   \<and> \<not> isl (environment_cell example_sdk
     (example_aws (Inr example_project) (Inr example_domain) (Inr example_tags) [])
     example_repr example_env ''iris'')"
  by (simp add: environment_cell_def name_resources_def load_roles_def getitem_def Let_def
      example_sdk_def example_env_def example_aws_def example_project_def)

section \<open>The approval of the latest model package\<close>

lemma extend_all_concat:
  "extend_all acc pages = acc @ concat (map ModelPackageSummaryList pages)"
  by (induction pages arbitrary: acc) auto

text \<open>
  Claim C1. When the pagination of \<^verbatim>\<open>list_model_packages\<close> over the model package group
  has returned its pages, the cell that selects the latest model package raises if and
  only if the list accumulated from the pages is empty, and what it raises then is the
  generic \<^verbatim>\<open>Exception\<close> with the message about the model package group; when the list is
  not empty the cell raises nothing and selects the ARN of the first model package of the
  list.
\<close>

theorem select_raises_iff_empty:
  assumes "list_model_packages rm tr g ''CreationTime'' ''Descending'' = Inr pages"
  shows "(isl (snd (select_latest_model_package rm repr g tr))
            \<longleftrightarrow> concat (map ModelPackageSummaryList pages) = [])
       \<and> (concat (map ModelPackageSummaryList pages) = [] \<longrightarrow>
            snd (select_latest_model_package rm repr g tr)
              = Inl (Exception (''No model package is found for '' @ g @ '' model package group'')))
       \<and> (concat (map ModelPackageSummaryList pages) \<noteq> [] \<longrightarrow>
            snd (select_latest_model_package rm repr g tr)
              = Inr (ModelPackageArn (hd (concat (map ModelPackageSummaryList pages)))))"
  using assms
  by (simp add: select_latest_model_package_def Let_def extend_all_concat no_model_package_def
      format_def hd_conv_nth)

theorem select_raises_iff_empty_witness:
  "snd (select_latest_model_package
     (example_remote
        [\<lparr>ModelPackageSummaryList = []\<rparr>,
         \<lparr>ModelPackageSummaryList =
            [example_package ''arn:package/2'' 20, example_package ''arn:package/1'' 10]\<rparr>]
        (example_state [] [] []))
     example_repr ''iris-p-1'' []) = Inr ''arn:package/2''
   \<and> snd (select_latest_model_package
     (example_remote [\<lparr>ModelPackageSummaryList = []\<rparr>] (example_state [] [] []))
     example_repr ''iris-p-1'' [])
     = Inl (Exception ''No model package is found for iris-p-1 model package group'')"
proof -
  let ?full = "[\<lparr>ModelPackageSummaryList = []\<rparr>,
         \<lparr>ModelPackageSummaryList =
            [example_package ''arn:package/2'' 20, example_package ''arn:package/1'' 10]\<rparr>]"
  let ?none = "[\<lparr>ModelPackageSummaryList = []\<rparr>]"
  let ?st = "example_state [] [] []"
  have 1: "list_model_packages (example_remote ?full ?st) [] ''iris-p-1'' ''CreationTime''
             ''Descending'' = Inr ?full"
    by (simp add: example_remote_def)
  have 2: "list_model_packages (example_remote ?none ?st) [] ''iris-p-1'' ''CreationTime''
             ''Descending'' = Inr ?none"
    by (simp add: example_remote_def)
  have "snd (select_latest_model_package (example_remote ?full ?st) example_repr ''iris-p-1'' [])
          = Inr ''arn:package/2''"
    using select_raises_iff_empty [OF 1, of example_repr] by (simp add: example_package_def)
  moreover have "snd (select_latest_model_package (example_remote ?none ?st) example_repr
            ''iris-p-1'' [])
          = Inl (Exception ''No model package is found for iris-p-1 model package group'')"
    using select_raises_iff_empty [OF 2, of example_repr] by simp
  ultimately show ?thesis by simp
qed

text \<open>
  Claim C7. When the list of model packages is not empty, the approval makes one call of
  \<^verbatim>\<open>update_model_package\<close> and no other: the events it adds are the listing, requested
  sorted by \<open>CreationTime\<close> in \<open>Descending\<close> order, and one update of the first model
  package of the listing to the status \<open>Approved\<close>; its outcome is the outcome of that
  call. In a listing that is sorted as requested, no model package was created after the
  first one.
\<close>

theorem approval_updates_latest_once:
  assumes "list_model_packages rm tr g ''CreationTime'' ''Descending'' = Inr pages"
    and "concat (map ModelPackageSummaryList pages) = latest # others"
  shows "fst (approval_step rm repr g tr)
           = tr @ [ListModelPackages g ''CreationTime'' ''Descending'',
                   UpdateModelPackage (ModelPackageArn latest) ''Approved'']
       \<and> snd (approval_step rm repr g tr)
           = update_model_package rm (tr @ [ListModelPackages g ''CreationTime'' ''Descending''])
               (ModelPackageArn latest) ''Approved''
       \<and> (sorted_wrt (\<lambda>p q. CreationTime q \<le> CreationTime p) (latest # others) \<longrightarrow>
            (\<forall>p \<in> set others. CreationTime p \<le> CreationTime latest))"
  using assms
  by (simp add: approval_step_def select_latest_model_package_def Let_def extend_all_concat
      approve_model_package_def)

theorem approval_updates_latest_once_witness:
  "approval_step
     (example_remote
        [\<lparr>ModelPackageSummaryList = []\<rparr>,
         \<lparr>ModelPackageSummaryList =
            [example_package ''arn:package/2'' 20, example_package ''arn:package/1'' 10]\<rparr>]
        (example_state [] [] []))
     example_repr ''iris-p-1'' []
   = ([ListModelPackages ''iris-p-1'' ''CreationTime'' ''Descending'',
       UpdateModelPackage ''arn:package/2'' ''Approved''], Inr ())
   \<and> CreationTime (example_package ''arn:package/1'' 10)
       \<le> CreationTime (example_package ''arn:package/2'' 20)"
proof -
  let ?full = "[\<lparr>ModelPackageSummaryList = []\<rparr>,
         \<lparr>ModelPackageSummaryList =
            [example_package ''arn:package/2'' 20, example_package ''arn:package/1'' 10]\<rparr>]"
  let ?rm = "example_remote ?full (example_state [] [] [])"
  have 1: "list_model_packages ?rm [] ''iris-p-1'' ''CreationTime'' ''Descending'' = Inr ?full"
    by (simp add: example_remote_def)
  have 2: "concat (map ModelPackageSummaryList ?full)
             = example_package ''arn:package/2'' 20 # [example_package ''arn:package/1'' 10]"
    by simp
  have 3: "sorted_wrt (\<lambda>p q. CreationTime q \<le> CreationTime p)
             (example_package ''arn:package/2'' 20 # [example_package ''arn:package/1'' 10])"
    by (simp add: example_package_def)
  note t = approval_updates_latest_once [OF 1 2, of example_repr]
  have "fst (approval_step ?rm example_repr ''iris-p-1'' [])
          = [ListModelPackages ''iris-p-1'' ''CreationTime'' ''Descending'',
             UpdateModelPackage ''arn:package/2'' ''Approved'']"
    using t by (simp add: example_package_def)
  moreover have "snd (approval_step ?rm example_repr ''iris-p-1'' []) = Inr ()"
    using t by (simp add: example_remote_def)
  moreover have "CreationTime (example_package ''arn:package/1'' 10)
       \<le> CreationTime (example_package ''arn:package/2'' 20)"
    using t 3 by simp
  ultimately show ?thesis by (simp add: prod_eq_iff)
qed

section \<open>The waiting loops\<close>

lemma polls_Suc: "polls name (Suc n) = [GetPipelineState name, Sleep 20] @ polls name n"
  by (simp add: polls_def)

lemma polls_0: "polls name 0 = []"
  by (simp add: polls_def)

lemma filter_find_None: "find P xs = None \<Longrightarrow> filter P xs = []"
  by (induction xs) (auto split: if_splits)

lemma filter_find_Some: "find P xs = Some x \<Longrightarrow> \<exists>rest. filter P xs = x # rest"
  by (induction xs) (auto split: if_splits)

lemma find_Some_mem: "find P xs = Some x \<Longrightarrow> x \<in> set xs \<and> P x"
  by (induction xs) (auto split: if_splits)

lemma reached_iff:
  "reached action st a \<longleftrightarrow>
     actionName a = action \<and> map_option status (latestExecution a) = Some st"
  by (auto simp: reached_def split: option.splits)

lemma still_waiting_iff:
  "still_waiting stage action st ss = Inr w \<longleftrightarrow>
     stage_present stage ss \<and> (w \<longleftrightarrow> \<not> action_status_is stage action st ss)"
proof (cases "find (\<lambda>s. stageName s = stage) ss")
  case None
  then have "filter (\<lambda>s. stageName s = stage) ss = []"
    by (rule filter_find_None)
  moreover have "\<not> stage_present stage ss"
    using None by (auto simp: stage_present_def find_None_iff list_ex_iff)
  ultimately show ?thesis by (simp add: still_waiting_def)
next
  case (Some s)
  then obtain rest where f: "filter (\<lambda>s. stageName s = stage) ss = s # rest"
    using filter_find_Some [OF Some] by blast
  have p: "stage_present stage ss"
    using find_Some_mem [OF Some] by (auto simp: stage_present_def list_ex_iff)
  have "action_status_is stage action st ss \<longleftrightarrow> filter (reached action st) (actionStates s) \<noteq> []"
    using Some by (auto simp: action_status_is_def list_ex_iff filter_empty_conv reached_iff)
  then show ?thesis
    using p by (auto simp: still_waiting_def f)
qed

lemma still_waiting_Inl:
  "still_waiting stage action st ss = Inl e \<longleftrightarrow> \<not> stage_present stage ss \<and> e = IndexError"
proof (cases "find (\<lambda>s. stageName s = stage) ss")
  case None
  then have "filter (\<lambda>s. stageName s = stage) ss = []"
    by (rule filter_find_None)
  moreover have "\<not> stage_present stage ss"
    using None by (auto simp: stage_present_def find_None_iff list_ex_iff)
  ultimately show ?thesis by (auto simp: still_waiting_def)
next
  case (Some s)
  then obtain rest where f: "filter (\<lambda>s. stageName s = stage) ss = s # rest"
    using filter_find_Some [OF Some] by blast
  have p: "stage_present stage ss"
    using find_Some_mem [OF Some] by (auto simp: stage_present_def list_ex_iff)
  show ?thesis
    using p by (auto simp: still_waiting_def f)
qed

lemma action_status_is_present: "action_status_is stage action st ss \<Longrightarrow> stage_present stage ss"
  by (auto simp: action_status_is_def stage_present_def list_ex_iff split: option.splits
      dest: find_Some_mem)

lemma wait_until_step:
  "poll_waits rm name stage action st tr \<Longrightarrow>
   wait_until rm name stage action st tr
     = wait_until rm name stage action st (tr @ [GetPipelineState name, Sleep 20])"
proof -
  assume "poll_waits rm name stage action st tr"
  then obtain ss where 1: "get_pipeline_state rm tr name = Inr ss"
    and "stage_present stage ss" and "\<not> action_status_is stage action st ss"
    by (auto simp: poll_waits_def split: sum.splits)
  then have 2: "still_waiting stage action st ss = Inr True"
    by (simp add: still_waiting_iff)
  show ?thesis
    by (subst wait_until.simps) (simp add: 1 2)
qed

lemma wait_until_exit:
  "poll_succeeds rm name stage action st tr \<Longrightarrow>
   wait_until rm name stage action st tr = Some (tr @ [GetPipelineState name], None)"
proof -
  assume "poll_succeeds rm name stage action st tr"
  then obtain ss where 1: "get_pipeline_state rm tr name = Inr ss"
    and a: "action_status_is stage action st ss"
    by (auto simp: poll_succeeds_def split: sum.splits)
  then have 2: "still_waiting stage action st ss = Inr False"
    by (simp add: still_waiting_iff action_status_is_present)
  show ?thesis
    by (subst wait_until.simps) (simp add: 1 2)
qed

lemma wait_until_polls:
  "(\<forall>k<n. poll_waits rm name stage action st (tr @ polls name k)) \<Longrightarrow>
   wait_until rm name stage action st tr
     = wait_until rm name stage action st (tr @ polls name n)"
proof (induction n arbitrary: tr)
  case 0
  then show ?case by (simp add: polls_0)
next
  case (Suc n)
  have "poll_waits rm name stage action st tr"
    using Suc.prems [rule_format, of 0] by (simp add: polls_0)
  then have "wait_until rm name stage action st tr
     = wait_until rm name stage action st (tr @ [GetPipelineState name, Sleep 20])"
    by (rule wait_until_step)
  also have "\<dots> = wait_until rm name stage action st
                    ((tr @ [GetPipelineState name, Sleep 20]) @ polls name n)"
  proof (rule Suc.IH, intro allI impI)
    fix k assume "k < n"
    then show "poll_waits rm name stage action st ((tr @ [GetPipelineState name, Sleep 20]) @ polls name k)"
      using Suc.prems [rule_format, of "Suc k"] by (simp add: polls_Suc)
  qed
  finally show ?case by (simp add: polls_Suc)
qed


lemma wait_until_sound_aux:
  assumes "wait_until rm name stage action st tr = Some y"
  shows "snd y = None \<longrightarrow>
   (\<exists>n. fst y = tr @ polls name n @ [GetPipelineState name]
      \<and> (\<forall>k<n. poll_waits rm name stage action st (tr @ polls name k))
      \<and> poll_succeeds rm name stage action st (tr @ polls name n))"
proof (rule wait_until.raw_induct
    [where P = "\<lambda>rm name stage action st tr y. snd y = None \<longrightarrow>
       (\<exists>n. fst y = tr @ polls name n @ [GetPipelineState name]
          \<and> (\<forall>k<n. poll_waits rm name stage action st (tr @ polls name k))
          \<and> poll_succeeds rm name stage action st (tr @ polls name n))", OF _ assms],
    rule impI)
  fix wait rm name stage action st tr y
  assume IH: "\<And>rm name stage action st tr y.
      wait rm name stage action st tr = Some y \<Longrightarrow> snd y = None \<longrightarrow>
      (\<exists>n. fst y = tr @ polls name n @ [GetPipelineState name]
          \<and> (\<forall>k<n. poll_waits rm name stage action st (tr @ polls name k))
          \<and> poll_succeeds rm name stage action st (tr @ polls name n))"
    and body: "(case get_pipeline_state rm tr name of
        Inl e \<Rightarrow> Some (tr @ [GetPipelineState name], Some e)
      | Inr stageStates \<Rightarrow>
          (case still_waiting stage action st stageStates of
             Inl e \<Rightarrow> Some (tr @ [GetPipelineState name], Some e)
           | Inr w \<Rightarrow>
               if w then wait rm name stage action st
                           (tr @ [GetPipelineState name, Sleep 20])
               else Some (tr @ [GetPipelineState name], None))) = Some y"
    and none: "snd y = None"
  show "\<exists>n. fst y = tr @ polls name n @ [GetPipelineState name]
          \<and> (\<forall>k<n. poll_waits rm name stage action st (tr @ polls name k))
          \<and> poll_succeeds rm name stage action st (tr @ polls name n)"
  proof (cases "get_pipeline_state rm tr name")
    case (Inl e)
    with body none show ?thesis by auto
  next
    case (Inr ss)
    show ?thesis
    proof (cases "still_waiting stage action st ss")
      case (Inl e)
      with body none Inr show ?thesis by auto
    next
      case w: (Inr w)
      show ?thesis
      proof (cases w)
        case True
        with body Inr w have "wait rm name stage action st (tr @ [GetPipelineState name, Sleep 20]) = Some y"
          by simp
        from IH [OF this] none obtain n where
          n: "fst y = (tr @ [GetPipelineState name, Sleep 20]) @ polls name n @ [GetPipelineState name]"
          and ks: "\<forall>k<n. poll_waits rm name stage action st ((tr @ [GetPipelineState name, Sleep 20]) @ polls name k)"
          and ex: "poll_succeeds rm name stage action st ((tr @ [GetPipelineState name, Sleep 20]) @ polls name n)"
          by blast
        have 0: "poll_waits rm name stage action st tr"
          using Inr w True by (simp add: poll_waits_def still_waiting_iff)
        have "\<forall>k<Suc n. poll_waits rm name stage action st (tr @ polls name k)"
        proof (intro allI impI)
          fix k assume "k < Suc n"
          then show "poll_waits rm name stage action st (tr @ polls name k)"
            using 0 ks by (cases k) (simp_all add: polls_0 polls_Suc)
        qed
        moreover have "fst y = tr @ polls name (Suc n) @ [GetPipelineState name]"
          using n by (simp add: polls_Suc)
        moreover have "poll_succeeds rm name stage action st (tr @ polls name (Suc n))"
          using ex by (simp add: polls_Suc)
        ultimately show ?thesis by blast
      next
        case False
        with body Inr w have "fst y = tr @ [GetPipelineState name]" by auto
        moreover have "poll_succeeds rm name stage action st tr"
          using Inr w False by (simp add: poll_succeeds_def still_waiting_iff)
        ultimately show ?thesis
          by (intro exI [of _ 0]) (simp add: polls_0)
      qed
    qed
  qed
qed

lemma wait_until_sound:
  "wait_until rm name stage action st tr = Some (tr', None) \<Longrightarrow>
   \<exists>n. tr' = tr @ polls name n @ [GetPipelineState name]
      \<and> (\<forall>k<n. poll_waits rm name stage action st (tr @ polls name k))
      \<and> poll_succeeds rm name stage action st (tr @ polls name n)"
  using wait_until_sound_aux [of rm name stage action st tr "(tr', None)"] by simp

lemma wait_until_iff:
  "wait_until rm name stage action st tr = Some (tr', None) \<longleftrightarrow>
   (\<exists>n. tr' = tr @ polls name n @ [GetPipelineState name]
      \<and> (\<forall>k<n. poll_waits rm name stage action st (tr @ polls name k))
      \<and> poll_succeeds rm name stage action st (tr @ polls name n))"
proof
  assume "wait_until rm name stage action st tr = Some (tr', None)"
  then show "\<exists>n. tr' = tr @ polls name n @ [GetPipelineState name]
      \<and> (\<forall>k<n. poll_waits rm name stage action st (tr @ polls name k))
      \<and> poll_succeeds rm name stage action st (tr @ polls name n)"
    by (rule wait_until_sound)
next
  assume "\<exists>n. tr' = tr @ polls name n @ [GetPipelineState name]
      \<and> (\<forall>k<n. poll_waits rm name stage action st (tr @ polls name k))
      \<and> poll_succeeds rm name stage action st (tr @ polls name n)"
  then obtain n where n: "tr' = tr @ polls name n @ [GetPipelineState name]"
    and ks: "\<forall>k<n. poll_waits rm name stage action st (tr @ polls name k)"
    and ex: "poll_succeeds rm name stage action st (tr @ polls name n)"
    by blast
  have "wait_until rm name stage action st tr = wait_until rm name stage action st (tr @ polls name n)"
    using ks by (rule wait_until_polls)
  also have "\<dots> = Some ((tr @ polls name n) @ [GetPipelineState name], None)"
    using ex by (rule wait_until_exit)
  finally show "wait_until rm name stage action st tr = Some (tr', None)"
    by (simp add: n)
qed

lemma length_polls: "length (polls name k) = 2 * k"
  by (induction k) (simp_all add: polls_def)

lemma example_poll_waits:
  "stage \<noteq> ''Source'' \<Longrightarrow> k < 2 \<Longrightarrow>
   poll_waits (example_remote [] (example_state stage action st)) name stage action st
     (polls name k)"
  by (simp add: poll_waits_def example_remote_def example_state_def length_polls
      stage_present_def action_status_is_def)

lemma example_poll_succeeds:
  "stage \<noteq> ''Source'' \<Longrightarrow>
   poll_succeeds (example_remote [] (example_state stage action st)) name stage action st
     (polls name 2)"
  by (simp add: poll_succeeds_def example_remote_def example_state_def length_polls
      action_status_is_def)

text \<open>
  Claim C3. Each of the two waiting loops polls the pipeline state and sleeps 20 seconds
  after every poll that leaves it waiting. The staging loop runs to its end exactly when
  some poll finds the latest execution of the action \<open>ApproveStagingDeployment\<close> of the
  stage \<open>DeployModelStaging\<close> with the status \<open>InProgress\<close>, every earlier poll having been
  answered with a state in which the status was not that one; the events of the loop are
  then the earlier polls, each followed by its sleep, and the last poll. The same holds
  of the production loop with the action \<open>DeployProd\<close> of the stage \<open>DeployModelProd\<close> and
  the status \<open>Succeeded\<close>. Nothing else lets a loop run to its end: it has no other exit,
  and a poll that raises does not complete the loop but aborts the cell, as the last
  section shows.
\<close>

theorem waiting_loops_exit_on_status:
  "(wait_for_staging rm name tr = Some (tr', None) \<longleftrightarrow>
      (\<exists>n. tr' = tr @ polls name n @ [GetPipelineState name]
         \<and> (\<forall>k<n. poll_waits rm name ''DeployModelStaging'' ''ApproveStagingDeployment''
                      ''InProgress'' (tr @ polls name k))
         \<and> poll_succeeds rm name ''DeployModelStaging'' ''ApproveStagingDeployment''
              ''InProgress'' (tr @ polls name n)))
   \<and> (wait_for_production rm name tr = Some (tr', None) \<longleftrightarrow>
      (\<exists>n. tr' = tr @ polls name n @ [GetPipelineState name]
         \<and> (\<forall>k<n. poll_waits rm name ''DeployModelProd'' ''DeployProd'' ''Succeeded''
                      (tr @ polls name k))
         \<and> poll_succeeds rm name ''DeployModelProd'' ''DeployProd'' ''Succeeded''
              (tr @ polls name n)))"
  unfolding wait_for_staging_def wait_for_production_def
  by (intro conjI wait_until_iff)

theorem waiting_loops_exit_on_status_witness:
  "wait_for_staging
     (example_remote [] (example_state ''DeployModelStaging'' ''ApproveStagingDeployment''
        ''InProgress''))
     ''sagemaker-iris-p-1-modeldeploy'' []
   = Some ([GetPipelineState ''sagemaker-iris-p-1-modeldeploy'', Sleep 20,
            GetPipelineState ''sagemaker-iris-p-1-modeldeploy'', Sleep 20,
            GetPipelineState ''sagemaker-iris-p-1-modeldeploy''], None)
   \<and> wait_for_production
     (example_remote [] (example_state ''DeployModelProd'' ''DeployProd'' ''Succeeded''))
     ''sagemaker-iris-p-1-modeldeploy'' []
   = Some ([GetPipelineState ''sagemaker-iris-p-1-modeldeploy'', Sleep 20,
            GetPipelineState ''sagemaker-iris-p-1-modeldeploy'', Sleep 20,
            GetPipelineState ''sagemaker-iris-p-1-modeldeploy''], None)"
proof -
  let ?n = "''sagemaker-iris-p-1-modeldeploy''"
  let ?tr = "[GetPipelineState ?n, Sleep 20, GetPipelineState ?n, Sleep 20, GetPipelineState ?n]"
  let ?s = "example_remote [] (example_state ''DeployModelStaging'' ''ApproveStagingDeployment''
        ''InProgress'')"
  let ?p = "example_remote [] (example_state ''DeployModelProd'' ''DeployProd'' ''Succeeded'')"
  have tr: "?tr = [] @ polls ?n 2 @ [GetPipelineState ?n]"
    by (simp add: polls_def numeral_2_eq_2)
  have "\<exists>n. ?tr = [] @ polls ?n n @ [GetPipelineState ?n]
         \<and> (\<forall>k<n. poll_waits ?s ?n ''DeployModelStaging'' ''ApproveStagingDeployment''
                      ''InProgress'' ([] @ polls ?n k))
         \<and> poll_succeeds ?s ?n ''DeployModelStaging'' ''ApproveStagingDeployment''
              ''InProgress'' ([] @ polls ?n n)"
    using tr by (intro exI [of _ 2]) (simp add: example_poll_waits example_poll_succeeds)
  then have 1: "wait_for_staging ?s ?n [] = Some (?tr, None)"
    using waiting_loops_exit_on_status [of ?s ?n "[]" ?tr] by blast
  have "\<exists>n. ?tr = [] @ polls ?n n @ [GetPipelineState ?n]
         \<and> (\<forall>k<n. poll_waits ?p ?n ''DeployModelProd'' ''DeployProd'' ''Succeeded''
                      ([] @ polls ?n k))
         \<and> poll_succeeds ?p ?n ''DeployModelProd'' ''DeployProd'' ''Succeeded''
              ([] @ polls ?n n)"
    using tr by (intro exI [of _ 2]) (simp add: example_poll_waits example_poll_succeeds)
  then have 2: "wait_for_production ?p ?n [] = Some (?tr, None)"
    using waiting_loops_exit_on_status [of ?p ?n "[]" ?tr] by blast
  from 1 2 show ?thesis by simp
qed

section \<open>The order of the clean-up\<close>

lemma emptied_first_no_delete:
  "concat (map deleted new) = [] \<Longrightarrow> emptied_first rm rgn tr new"
  by (auto simp: emptied_first_def)

lemma emptied_first_block:
  assumes l: "list_stack_instances rm tr s = Inr reply"
    and g: "emptied_first rm rgn
              (tr @ [ListStackInstances s,
                     DeleteStackInstances s (map Account (Summaries reply)) [rgn] False,
                     Sleep 180, DeleteStackSet s]) new"
  shows "emptied_first rm rgn tr
           ([ListStackInstances s,
             DeleteStackInstances s (map Account (Summaries reply)) [rgn] False,
             Sleep 180, DeleteStackSet s] @ new)"
  unfolding emptied_first_def
proof (intro allI impI)
  fix pre ss post
  let ?L = "ListStackInstances s"
  let ?D = "DeleteStackInstances s (map Account (Summaries reply)) [rgn] False"
  let ?S = "Sleep 180"
  assume eq: "[?L, ?D, ?S, DeleteStackSet s] @ new = pre @ DeleteStackSet ss # post"
  show "\<exists>pre' reply.
           pre = pre' @ [ListStackInstances ss,
                         DeleteStackInstances ss (map Account (Summaries reply)) [rgn] False,
                         Sleep 180]
           \<and> list_stack_instances rm (tr @ pre') ss = Inr reply"
  proof (cases "length pre < 3")
    case True
    then consider "pre = []" | a where "pre = [a]" | a b where "pre = [a, b]"
      by (cases pre; cases "tl pre"; cases "tl (tl pre)") auto
    then show ?thesis using eq by cases auto
  next
    case False
    then obtain a b c rest where pre: "pre = a # b # c # rest"
      by (cases pre; cases "tl pre"; cases "tl (tl pre)") auto
    with eq have abc: "a = ?L" "b = ?D" "c = ?S"
      and eq': "DeleteStackSet s # new = rest @ DeleteStackSet ss # post"
      by auto
    show ?thesis
    proof (cases rest)
      case Nil
      with eq' have "ss = s" by simp
      with pre abc Nil l show ?thesis by auto
    next
      case (Cons d rest')
      with eq' have d: "d = DeleteStackSet s" and new: "new = rest' @ DeleteStackSet ss # post"
        by auto
      from g [unfolded emptied_first_def, rule_format, OF new]
      obtain pre' sums where "rest' = pre' @ [ListStackInstances ss,
                         DeleteStackInstances ss (map Account (Summaries sums)) [rgn] False,
                         Sleep 180]"
        and "list_stack_instances rm ((tr @ [?L, ?D, ?S, DeleteStackSet s]) @ pre') ss = Inr sums"
        by blast
      then have "pre = ([?L, ?D, ?S, DeleteStackSet s] @ pre') @ [ListStackInstances ss,
                         DeleteStackInstances ss (map Account (Summaries sums)) [rgn] False,
                         Sleep 180]"
        and "list_stack_instances rm (tr @ ([?L, ?D, ?S, DeleteStackSet s] @ pre')) ss = Inr sums"
        using pre abc Cons d by simp_all
      then show ?thesis by blast
    qed
  qed
qed

lemma delete_stack_sets_trace:
  "delete_stack_sets rm rgn sss tr = (tr', x) \<Longrightarrow>
   \<exists>new. tr' = tr @ new
     \<and> (\<exists>k. concat (map emptied new) = take k sss)
     \<and> (\<exists>k. concat (map deleted new) = take k sss)
     \<and> emptied_first rm rgn tr new
     \<and> (x = None \<longrightarrow> concat (map deleted new) = sss)"
proof (induction sss arbitrary: tr)
  case Nil
  then show ?case by (simp add: emptied_first_no_delete)
next
  case (Cons s rest)
  show ?case
  proof (cases "list_stack_instances rm tr s")
    case (Inl e)
    with Cons.prems have "tr' = tr @ [ListStackInstances s]" and "x = Some e" by auto
    then show ?thesis
      by (intro exI [of _ "[ListStackInstances s]"] conjI exI [of _ 0])
         (simp_all add: emptied_first_no_delete)
  next
    case l: (Inr reply)
    let ?L = "ListStackInstances s"
    let ?D = "DeleteStackInstances s (map Account (Summaries reply)) [rgn] False"
    let ?S = "Sleep 180"
    show ?thesis
    proof (cases "delete_stack_instances rm (tr @ [?L]) s (map Account (Summaries reply)) [rgn]
                    False")
      case (Inl e)
      with Cons.prems l have "tr' = tr @ [?L, ?D]" and "x = Some e" by (auto simp: Let_def)
      then show ?thesis
        by (intro exI [of _ "[?L, ?D]"] conjI exI [of _ 1] exI [of _ 0])
           (simp_all add: emptied_first_no_delete)
    next
      case d: (Inr u)
      show ?thesis
      proof (cases "delete_stack_set rm (tr @ [?L, ?D, ?S]) s")
        case (Inl e)
        with Cons.prems l d have tr': "tr' = tr @ [?L, ?D, ?S, DeleteStackSet s]" and "x = Some e"
          by (auto simp: Let_def)
        have "emptied_first rm rgn tr ([?L, ?D, ?S, DeleteStackSet s] @ [])"
          by (rule emptied_first_block [OF l]) (simp add: emptied_first_no_delete)
        with tr' \<open>x = Some e\<close> show ?thesis
          by (intro exI [of _ "[?L, ?D, ?S, DeleteStackSet s]"] conjI exI [of _ 1]) simp_all
      next
        case (Inr u')
        with Cons.prems l d have
          "delete_stack_sets rm rgn rest (tr @ [?L, ?D, ?S, DeleteStackSet s]) = (tr', x)"
          by (simp add: Let_def)
        from Cons.IH [OF this] obtain new k1 k2 where
          new: "tr' = (tr @ [?L, ?D, ?S, DeleteStackSet s]) @ new"
          and k1: "concat (map emptied new) = take k1 rest"
          and k2: "concat (map deleted new) = take k2 rest"
          and g: "emptied_first rm rgn (tr @ [?L, ?D, ?S, DeleteStackSet s]) new"
          and ok: "x = None \<longrightarrow> concat (map deleted new) = rest"
          by blast
        have "emptied_first rm rgn tr ([?L, ?D, ?S, DeleteStackSet s] @ new)"
          using l g by (rule emptied_first_block)
        moreover have "tr' = tr @ ([?L, ?D, ?S, DeleteStackSet s] @ new)"
          using new by simp
        moreover have "concat (map emptied ([?L, ?D, ?S, DeleteStackSet s] @ new)) = take (Suc k1) (s # rest)"
          using k1 by simp
        moreover have "concat (map deleted ([?L, ?D, ?S, DeleteStackSet s] @ new)) = take (Suc k2) (s # rest)"
          using k2 by simp
        moreover have "x = None \<longrightarrow> concat (map deleted ([?L, ?D, ?S, DeleteStackSet s] @ new)) = s # rest"
          using ok by simp
        ultimately show ?thesis by blast
      qed
    qed
  qed
qed

text \<open>
  Claim C9. The clean-up deletes the instances of the accounts in the \<open>Summaries\<close> of the
  one reply it asks for, and not of every account that has an instance: it never reads
  \<open>NextToken\<close>, while the cell that selects the model package goes through every page of
  its listing. Where the staging stack set has instances in the three accounts of
  \<open>example_instances\<close> and the service lists them two to a reply, the reply carries the
  token for the third account, \<^verbatim>\<open>delete_stack_instances\<close> is called for the first two
  accounts only, and \<^verbatim>\<open>delete_stack_set\<close> is called for the stack set while the account
  \<open>333333333333\<close> still has its instance. The order of the calls is as claimed: staging
  before production, and for each stack set the listing, the deletion of the instances with
  \<open>RetainStacks=False\<close>, the sleep and the deletion of the stack set.
\<close>

theorem clean_up_reads_first_reply_only:
  "map Account example_instances = [''111111111111'', ''222222222222'', ''333333333333'']
   \<and> list_stack_instances example_truncating_remote
       [SdkCall ''boto3.client'' [([], Str ''cloudformation'')]]
       ''sagemaker-iris-p-1-deploy-staging''
     = Inr \<lparr>Summaries = [\<lparr>Account = ''111111111111''\<rparr>, \<lparr>Account = ''222222222222''\<rparr>],
            NextToken = Some ''2''\<rparr>
   \<and> clean_up example_truncating_remote example_repr ''eu-west-1'' example_env ''iris'' ''p-1'' []
     = ([SdkCall ''boto3.client'' [([], Str ''cloudformation'')],
         ListStackInstances ''sagemaker-iris-p-1-deploy-staging'',
         DeleteStackInstances ''sagemaker-iris-p-1-deploy-staging''
           [''111111111111'', ''222222222222''] [''eu-west-1''] False,
         Sleep 180,
         DeleteStackSet ''sagemaker-iris-p-1-deploy-staging'',
         ListStackInstances ''sagemaker-iris-p-1-deploy-prod'',
         DeleteStackInstances ''sagemaker-iris-p-1-deploy-prod''
           [''111111111111'', ''222222222222''] [''eu-west-1''] False,
         Sleep 180,
         DeleteStackSet ''sagemaker-iris-p-1-deploy-prod''],
        None)"
  by (simp add: clean_up_def example_truncating_remote_def example_remote_def
      example_instances_def example_env_def getitem_def stack_set_name_def format_def Let_def)

section \<open>The exceptions that reach the notebook\<close>






























end
